theory Spec2Isabelle
  imports Main
begin

section \<open>Inter-agent coordination: the data model\<close>

text \<open>
  The development covers the class \<open>CoordinationManager\<close> (file
  \<open>src/utils/analysis-metrics.js\<close>, second module) and the part of \<open>BaseAgent\<close> it
  calls. A Comment is a directed question stored in the asking agent's working file;
  the fields are those the manager and the agents read.
\<close>

datatype status = Pending | Resolved

record comment =
  comment_id :: string
  targetAgent :: string
  question :: string
  context_text :: string
  round_no :: int
  status :: status
  response :: "string option"

text \<open>A thrown JavaScript \<open>Error\<close>, with its \<open>message\<close>.\<close>

datatype error = Error (message: string)

text \<open>
  Values a JavaScript caller can pass to the constructor. Only \<open>undefined\<close> triggers a
  default parameter value.
\<close>

datatype jsval = Undefined | Null | Str string | Num int | Bool bool

text \<open>
  An agent as the manager sees it: \<open>name\<close>, \<open>workingFile\<close> (set by \<open>initialize\<close>) and
  the method \<open>respondToQuestion(question, askingAgent)\<close>, which either returns the
  answer text or throws.
\<close>

record agent =
  name :: string
  workingFile :: string
  respondToQuestion :: "comment \<Rightarrow> string \<Rightarrow> error + string"

text \<open>
  What the manager appends to the error log. \<open>logCoordinationTimeout\<close> writes the agent
  pair, \<open>maxRounds\<close> and the questions it was given; \<open>logError\<close> writes a message. The
  time stamp of an entry is left out.
\<close>

datatype log_entry =
  CoordinationTimeout string int "comment list"
| ErrorEntry string

text \<open>
  The calls a run makes, in order: the \<open>console.log\<close> that opens a round, the call of
  \<open>facilitateCoordination\<close> for a pair (by pair key), and the call of an agent's
  \<open>respondToQuestion\<close> (answering agent's name, id of the Comment).
\<close>

datatype event =
  RoundStarted int
| PairAttempt string
| AnswerRequested string string

text \<open>The four fields the constructor sets.\<close>

record manager =
  maxRounds :: int
  currentRound :: int
  roundLimits :: "string \<rightharpoonup> int"
  errorLogPath :: string

text \<open>
  The state a run threads through: the manager's fields, the file system holding the
  agents' working files, the entries appended to the error log, and the call trace.
\<close>

record 'fs run = manager +
  files :: 'fs
  errorLog :: "log_entry list"
  trace :: "event list"

text \<open>
  What the manager imports: \<open>join\<close> of Node's \<open>path\<close> module, and of the module
  \<open>markdown-manager.js\<close> (not among the sources) the composition
  \<open>parseComments (readFile path)\<close> and \<open>respondToComment (path, id, response)\<close>. They
  are parameters of the model; either file operation may throw.
\<close>

record 'fs env =
  join :: "string \<Rightarrow> string \<Rightarrow> string"
  readComments :: "'fs \<Rightarrow> string \<Rightarrow> error + comment list"
  respondToComment :: "'fs \<Rightarrow> string \<Rightarrow> string \<Rightarrow> string \<Rightarrow> error + 'fs"

section \<open>The Coordination Manager\<close>

text \<open>
  \<open>constructor(outputDir = 'output')\<close>: the first argument, or \<open>'output'\<close> when it is
  absent or \<open>undefined\<close>; further arguments are ignored. \<open>path.join\<close> throws a
  \<open>TypeError\<close> on an argument that is not a string.
\<close>

definition CoordinationManager :: "'fs env \<Rightarrow> jsval list \<Rightarrow> error + manager" where
  "CoordinationManager env args =
     (let outputDir = (case args of [] \<Rightarrow> Str ''output''
                                  | Undefined # _ \<Rightarrow> Str ''output''
                                  | v # _ \<Rightarrow> v)
      in case outputDir of
           Str dir \<Rightarrow> Inr \<lparr> maxRounds = 3, currentRound = 1, roundLimits = Map.empty,
                            errorLogPath = join env dir ''error-log.md'' \<rparr>
         | _ \<Rightarrow> Inl (Error ''The path argument must be of type string''))"

text \<open>A run of a manager on a file system, with an empty error log and trace.\<close>

definition begin_run :: "manager \<Rightarrow> 'fs \<Rightarrow> 'fs run" where
  "begin_run m fs =
     \<lparr> maxRounds = maxRounds m, currentRound = currentRound m, roundLimits = roundLimits m,
       errorLogPath = errorLogPath m, files = fs, errorLog = [], trace = [] \<rparr>"

text \<open>\<open>getAgentPairs\<close>: the nested loops over \<open>i < j\<close>, in their order.\<close>

fun getAgentPairs :: "'a list \<Rightarrow> ('a \<times> 'a) list" where
  "getAgentPairs [] = []"
| "getAgentPairs (a # rest) = map (Pair a) rest @ getAgentPairs rest"

text \<open>\<open>this.roundLimits.get(pairKey) || 0\<close>\<close>

definition getRoundCount :: "'fs run \<Rightarrow> string \<Rightarrow> int" where
  "getRoundCount s pairKey = (case roundLimits s pairKey of None \<Rightarrow> 0 | Some n \<Rightarrow> n)"

definition incrementRoundCount :: "string \<Rightarrow> 'fs run \<Rightarrow> 'fs run" where
  "incrementRoundCount pairKey s =
     s\<lparr> roundLimits := (roundLimits s)(pairKey \<mapsto> getRoundCount s pairKey + 1) \<rparr>"

text \<open>
  \<open>appendToErrorLog\<close> catches its own failures (it falls back to the console), so an
  entry is always recorded and nothing is thrown.
\<close>

definition appendToErrorLog :: "log_entry \<Rightarrow> 'fs run \<Rightarrow> 'fs run" where
  "appendToErrorLog entry s = s\<lparr> errorLog := errorLog s @ [entry] \<rparr>"

definition logCoordinationTimeout :: "string \<Rightarrow> comment list \<Rightarrow> 'fs run \<Rightarrow> 'fs run" where
  "logCoordinationTimeout agentPair questions s =
     appendToErrorLog (CoordinationTimeout agentPair (maxRounds s) questions) s"

definition logError :: "string \<Rightarrow> 'fs run \<Rightarrow> 'fs run" where
  "logError msg s = appendToErrorLog (ErrorEntry msg) s"

definition findAgentFile :: "'fs env \<Rightarrow> string \<Rightarrow> string" where
  "findAgentFile env agentName = join env ''output'' (agentName @ ''-analysis.md'')"

definition checkForQuestions ::
  "'fs env \<Rightarrow> 'fs run \<Rightarrow> agent \<Rightarrow> string \<Rightarrow> error + comment list" where
  "checkForQuestions env s fromAgent toAgentName =
     (case readComments env (files s) (workingFile fromAgent) of
        Inl e \<Rightarrow> Inl e
      | Inr comments \<Rightarrow>
          Inr (filter (\<lambda>c. targetAgent c = toAgentName \<and> status c = Pending
                            \<and> round_no c = currentRound s) comments))"

text \<open>
  One iteration of the loop of \<open>processQuestions\<close>: the \<open>try\<close> block with its
  \<open>catch\<close>. An empty string is the only falsy value \<open>findAgentFile\<close> can return.
\<close>

definition processQuestion :: "'fs env \<Rightarrow> agent \<Rightarrow> string \<Rightarrow> comment \<Rightarrow> 'fs run \<Rightarrow> 'fs run" where
  "processQuestion env answeringAgent askingAgentName q s =
     (let s0 = s\<lparr> trace := trace s @ [AnswerRequested (name answeringAgent) (comment_id q)] \<rparr>;
          caught = (\<lambda>e. logError (''Error processing question from '' @ askingAgentName
                           @ '' to '' @ name answeringAgent @ '': '' @ message e) s0)
      in case respondToQuestion answeringAgent q askingAgentName of
           Inl e \<Rightarrow> caught e
         | Inr answer \<Rightarrow>
             (let askingAgentFile = findAgentFile env askingAgentName
              in if askingAgentFile \<noteq> []
                 then (case respondToComment env (files s0) askingAgentFile (comment_id q) answer of
                         Inl e \<Rightarrow> caught e
                       | Inr fs \<Rightarrow> s0\<lparr> files := fs \<rparr>)
                 else s0))"

fun processQuestions :: "'fs env \<Rightarrow> agent \<Rightarrow> comment list \<Rightarrow> string \<Rightarrow> 'fs run \<Rightarrow> 'fs run" where
  "processQuestions env answeringAgent [] askingAgentName s = s"
| "processQuestions env answeringAgent (q # questions) askingAgentName s =
     processQuestions env answeringAgent questions askingAgentName
       (processQuestion env answeringAgent askingAgentName q s)"

text \<open>
  \<open>facilitateCoordination\<close>: both directions inside one \<open>try\<close>; a throw of
  \<open>checkForQuestions\<close> ends the pair's processing with an error-log entry.
\<close>

definition facilitateCoordination ::
  "'fs env \<Rightarrow> agent \<Rightarrow> agent \<Rightarrow> string \<Rightarrow> 'fs run \<Rightarrow> 'fs run" where
  "facilitateCoordination env agent1 agent2 pairKey s =
     (let caught = (\<lambda>e. logError (''Coordination error between '' @ name agent1 @ '' and ''
                           @ name agent2 @ '': '' @ message e))
      in case checkForQuestions env s agent1 (name agent2) of
           Inl e \<Rightarrow> caught e s
         | Inr questions1to2 \<Rightarrow>
             (let s1 = (if length questions1to2 > 0
                        then incrementRoundCount pairKey
                               (processQuestions env agent2 questions1to2 (name agent1) s)
                        else s)
              in case checkForQuestions env s1 agent2 (name agent1) of
                   Inl e \<Rightarrow> caught e s1
                 | Inr questions2to1 \<Rightarrow>
                     (if length questions2to1 > 0
                      then incrementRoundCount pairKey
                             (processQuestions env agent1 questions2to1 (name agent2) s1)
                      else s1)))"

text \<open>
  The \<open>for\<close> loop of \<open>startCoordinationRound\<close>. It runs to its end before any pair's
  processing gets past its first \<open>await\<close>, so every pair's round count is tested
  against the counts the round began with; the loop returns the pairs whose
  \<open>facilitateCoordination\<close> was called (\<open>coordinationPromises\<close>).
\<close>

fun coordinationLoop ::
  "(agent \<times> agent) list \<Rightarrow> 'fs run \<Rightarrow> 'fs run \<times> (agent \<times> agent \<times> string) list" where
  "coordinationLoop [] s = (s, [])"
| "coordinationLoop ((agent1, agent2) # rest) s =
     (let pairKey = name agent1 @ ''-'' @ name agent2
      in if getRoundCount s pairKey \<ge> maxRounds s
         then coordinationLoop rest (logCoordinationTimeout pairKey [] s)
         else (case coordinationLoop rest (s\<lparr> trace := trace s @ [PairAttempt pairKey] \<rparr>) of
                 (s', coordinationPromises) \<Rightarrow>
                   (s', (agent1, agent2, pairKey) # coordinationPromises)))"

text \<open>
  \<open>await Promise.all(coordinationPromises)\<close>. The pairs' tasks interleave at their
  \<open>await\<close>s; the model runs them one after the other, in the order of the list. Within
  a pair the order of calls and log entries is the code's; between different pairs it
  is the order of this schedule, which the theorems below do not rely on.
\<close>

fun promiseAll :: "'fs env \<Rightarrow> (agent \<times> agent \<times> string) list \<Rightarrow> 'fs run \<Rightarrow> 'fs run" where
  "promiseAll env [] s = s"
| "promiseAll env ((agent1, agent2, pairKey) # rest) s =
     promiseAll env rest (facilitateCoordination env agent1 agent2 pairKey s)"

fun checkPendingQuestions :: "'fs env \<Rightarrow> agent list \<Rightarrow> 'fs run \<Rightarrow> error + comment list" where
  "checkPendingQuestions env [] s = Inr []"
| "checkPendingQuestions env (a # rest) s =
     (case readComments env (files s) (workingFile a) of
        Inl e \<Rightarrow> Inl e
      | Inr comments \<Rightarrow>
          (case checkPendingQuestions env rest s of
             Inl e \<Rightarrow> Inl e
           | Inr others \<Rightarrow> Inr (filter (\<lambda>c. status c = Pending) comments @ others)))"

definition hasPendingQuestions :: "'fs env \<Rightarrow> agent list \<Rightarrow> 'fs run \<Rightarrow> error + bool" where
  "hasPendingQuestions env agents s =
     (case checkPendingQuestions env agents s of
        Inl e \<Rightarrow> Inl e
      | Inr pendingQuestions \<Rightarrow> Inr (length pendingQuestions > 0))"

text \<open>One round: everything \<open>startCoordinationRound\<close> does before its final test.\<close>

definition runRound :: "'fs env \<Rightarrow> agent list \<Rightarrow> 'fs run \<Rightarrow> 'fs run" where
  "runRound env agents s =
     (case coordinationLoop (getAgentPairs agents)
             (s\<lparr> trace := trace s @ [RoundStarted (currentRound s)] \<rparr>) of
        (s1, coordinationPromises) \<Rightarrow> promiseAll env coordinationPromises s1)"

lemma appendToErrorLog_fields [simp]:
  "maxRounds (appendToErrorLog x s) = maxRounds s"
  "currentRound (appendToErrorLog x s) = currentRound s"
  "roundLimits (appendToErrorLog x s) = roundLimits s"
  "files (appendToErrorLog x s) = files s"
  "trace (appendToErrorLog x s) = trace s"
  "errorLog (appendToErrorLog x s) = errorLog s @ [x]"
  by (simp_all add: appendToErrorLog_def)

lemma logError_fields [simp]:
  "maxRounds (logError x s) = maxRounds s"
  "currentRound (logError x s) = currentRound s"
  "roundLimits (logError x s) = roundLimits s"
  "files (logError x s) = files s"
  "trace (logError x s) = trace s"
  "errorLog (logError x s) = errorLog s @ [ErrorEntry x]"
  by (simp_all add: logError_def)

lemma logCoordinationTimeout_fields [simp]:
  "maxRounds (logCoordinationTimeout k qs s) = maxRounds s"
  "currentRound (logCoordinationTimeout k qs s) = currentRound s"
  "roundLimits (logCoordinationTimeout k qs s) = roundLimits s"
  "files (logCoordinationTimeout k qs s) = files s"
  "trace (logCoordinationTimeout k qs s) = trace s"
  "errorLog (logCoordinationTimeout k qs s) = errorLog s @ [CoordinationTimeout k (maxRounds s) qs]"
  by (simp_all add: logCoordinationTimeout_def)

lemma incrementRoundCount_fields [simp]:
  "maxRounds (incrementRoundCount k s) = maxRounds s"
  "currentRound (incrementRoundCount k s) = currentRound s"
  "files (incrementRoundCount k s) = files s"
  "trace (incrementRoundCount k s) = trace s"
  "errorLog (incrementRoundCount k s) = errorLog s"
  by (simp_all add: incrementRoundCount_def)

lemma processQuestion_fields [simp]:
  "maxRounds (processQuestion env a n q s) = maxRounds s"
  "currentRound (processQuestion env a n q s) = currentRound s"
  "roundLimits (processQuestion env a n q s) = roundLimits s"
  "trace (processQuestion env a n q s) = trace s @ [AnswerRequested (name a) (comment_id q)]"
  by (simp_all add: processQuestion_def Let_def split: sum.splits)

lemma processQuestions_fields [simp]:
  "maxRounds (processQuestions env a qs n s) = maxRounds s"
  "currentRound (processQuestions env a qs n s) = currentRound s"
  "roundLimits (processQuestions env a qs n s) = roundLimits s"
  by (induction qs arbitrary: s) simp_all

lemma facilitateCoordination_fields [simp]:
  "maxRounds (facilitateCoordination env a1 a2 k s) = maxRounds s"
  "currentRound (facilitateCoordination env a1 a2 k s) = currentRound s"
  by (simp_all add: facilitateCoordination_def Let_def split: sum.splits)

lemma promiseAll_fields [simp]:
  "maxRounds (promiseAll env ps s) = maxRounds s"
  "currentRound (promiseAll env ps s) = currentRound s"
  by (induction ps arbitrary: s) auto

lemma coordinationLoop_keeps:
  "coordinationLoop ps s = (s', qs) \<Longrightarrow>
     maxRounds s' = maxRounds s \<and> currentRound s' = currentRound s
     \<and> roundLimits s' = roundLimits s \<and> files s' = files s"
proof (induction ps arbitrary: s s' qs)
  case Nil
  then show ?case by simp
next
  case (Cons p ps)
  obtain agent1 agent2 where p: "p = (agent1, agent2)" by (cases p)
  let ?k = "name agent1 @ ''-'' @ name agent2"
  show ?case
  proof (cases "getRoundCount s ?k \<ge> maxRounds s")
    case True
    with Cons.prems p have "coordinationLoop ps (logCoordinationTimeout ?k [] s) = (s', qs)"
      by simp
    from Cons.IH[OF this] show ?thesis by simp
  next
    case False
    obtain t ts where r: "coordinationLoop ps (s\<lparr> trace := trace s @ [PairAttempt ?k] \<rparr>) = (t, ts)"
      by (cases "coordinationLoop ps (s\<lparr> trace := trace s @ [PairAttempt ?k] \<rparr>)")
    with Cons.prems p False have "s' = t" by simp
    with Cons.IH[OF r] show ?thesis by simp
  qed
qed

lemma coordinationLoop_fields [simp]:
  "maxRounds (fst (coordinationLoop ps s)) = maxRounds s"
  "currentRound (fst (coordinationLoop ps s)) = currentRound s"
  "roundLimits (fst (coordinationLoop ps s)) = roundLimits s"
  "files (fst (coordinationLoop ps s)) = files s"
  using coordinationLoop_keeps[of ps s "fst (coordinationLoop ps s)" "snd (coordinationLoop ps s)"]
  by simp_all

lemma runRound_fields [simp]:
  "maxRounds (runRound env agents s) = maxRounds s"
  "currentRound (runRound env agents s) = currentRound s"
proof -
  obtain s1 ps where c: "coordinationLoop (getAgentPairs agents)
      (s\<lparr> trace := trace s @ [RoundStarted (currentRound s)] \<rparr>) = (s1, ps)"
    by (cases "coordinationLoop (getAgentPairs agents)
      (s\<lparr> trace := trace s @ [RoundStarted (currentRound s)] \<rparr>)")
  have "maxRounds s1 = maxRounds s" "currentRound s1 = currentRound s"
    using coordinationLoop_fields(1,2)[of "getAgentPairs agents"
        "s\<lparr> trace := trace s @ [RoundStarted (currentRound s)] \<rparr>"] c by simp_all
  then show "maxRounds (runRound env agents s) = maxRounds s"
    "currentRound (runRound env agents s) = currentRound s"
    by (simp_all add: runRound_def c)
qed

text \<open>
  \<open>startCoordinationRound\<close>: a round, then the test
  \<open>currentRound < maxRounds && hasPendingQuestions(agents)\<close>, whose second operand is
  evaluated only when the first holds and is outside every \<open>try\<close>, so its throw is the
  call's. The state is returned with the result: \<open>Inr True\<close> for \<open>return true\<close>,
  \<open>Inl e\<close> for a rejection.
\<close>

function startCoordinationRound ::
  "'fs env \<Rightarrow> agent list \<Rightarrow> 'fs run \<Rightarrow> 'fs run \<times> (error + bool)" where
  "startCoordinationRound env agents s =
     (let s' = runRound env agents s
      in if currentRound s' < maxRounds s'
         then (case hasPendingQuestions env agents s' of
                 Inl e \<Rightarrow> (s', Inl e)
               | Inr pending \<Rightarrow>
                   (if pending
                    then startCoordinationRound env agents (s'\<lparr> currentRound := currentRound s' + 1 \<rparr>)
                    else (s', Inr True)))
         else (s', Inr True))"
  by pat_completeness auto
termination
  by (relation "measure (\<lambda>(env, agents, s). nat (maxRounds s - currentRound s))") auto

declare startCoordinationRound.simps [simp del]

section \<open>The working-memory store\<close>

text \<open>
  The module \<open>markdown-manager.js\<close> (\<open>MarkdownManager.readFile\<close>, \<open>parseComments\<close>,
  \<open>respondToComment\<close>, \<open>addComment\<close>, \<open>createWorkingFile\<close>) is not among the sources.
  The store below follows the spec's contract of the working-memory store (section
  4.1). A working file is represented by its comment ledger; a path with no document
  is unreadable and unwritable (\<open>StorageError\<close>).
\<close>

type_synonym store = "string \<rightharpoonup> comment list"

text \<open>
  Modelled from the spec: resolution of a Comment, the part of \<open>resolveComment\<close> that
  acts on the Comment found. It sets \<open>status = resolved\<close> and the response on a pending
  Comment and is a no-op on a resolved one (section 8, idempotent resolution: the first
  response stays).
\<close>

definition resolve :: "comment \<Rightarrow> string \<Rightarrow> comment" where
  "resolve c answer =
     (if status c = Pending then c\<lparr> status := Resolved, response := Some answer \<rparr> else c)"

text \<open>
  Modelled from the spec: \<open>resolveComment\<close> locates the Comment by \<open>id\<close> in the ledger and
  resolves it; it is a no-op when the \<open>id\<close> is not found (the warning it then logs is
  left out).
\<close>

fun resolveComment :: "comment list \<Rightarrow> string \<Rightarrow> string \<Rightarrow> comment list" where
  "resolveComment [] i answer = []"
| "resolveComment (c # cs) i answer =
     (if comment_id c = i then resolve c answer # cs else c # resolveComment cs i answer)"

text \<open>Modelled from the spec: \<open>readLedger\<close>, the ledger of the document at a path.\<close>

definition readLedger :: "store \<Rightarrow> string \<Rightarrow> error + comment list" where
  "readLedger fs path =
     (case fs path of None \<Rightarrow> Inl (Error ''StorageError'') | Some ledger \<Rightarrow> Inr ledger)"

text \<open>Modelled from the spec: \<open>resolveComment\<close> on the document at a path.\<close>

definition resolveAt :: "store \<Rightarrow> string \<Rightarrow> string \<Rightarrow> string \<Rightarrow> error + store" where
  "resolveAt fs path i answer =
     (case fs path of
        None \<Rightarrow> Inl (Error ''StorageError'')
      | Some ledger \<Rightarrow> Inr (fs(path \<mapsto> resolveComment ledger i answer)))"

text \<open>
  \<open>path.join\<close> of Node on two segments that are non-empty and already normalised (no
  \<open>.\<close>, \<open>..\<close>, doubled or trailing separators), the only case the examples below use.
\<close>

definition joinSegments :: "string \<Rightarrow> string \<Rightarrow> string" where
  "joinSegments a b = a @ ''/'' @ b"

definition storeEnv :: "store env" where
  "storeEnv = \<lparr> join = joinSegments, readComments = readLedger, respondToComment = resolveAt \<rparr>"

section \<open>Observations on the call trace\<close>

fun isRoundStarted :: "event \<Rightarrow> bool" where
  "isRoundStarted (RoundStarted _) = True"
| "isRoundStarted _ = False"

fun isPairAttempt :: "event \<Rightarrow> bool" where
  "isPairAttempt (PairAttempt _) = True"
| "isPairAttempt _ = False"

text \<open>The number of rounds opened, and of calls of \<open>facilitateCoordination\<close>.\<close>

definition roundsStarted :: "event list \<Rightarrow> nat" where
  "roundsStarted t = length (filter isRoundStarted t)"

definition pairAttempts :: "event list \<Rightarrow> nat" where
  "pairAttempts t = length (filter isPairAttempt t)"

text \<open>
  The rounds a call can still open: the round it is in, and one for every value of
  \<open>currentRound\<close> below \<open>maxRounds\<close> after it.
\<close>

definition roundBudget :: "'fs run \<Rightarrow> nat" where
  "roundBudget s =
     (if currentRound s < maxRounds s then nat (maxRounds s - currentRound s) + 1 else 1)"

section \<open>Example agents and documents\<close>

text \<open>
  Modelled from the spec: \<open>appendComment\<close> adds a Comment with \<open>status = pending\<close> and no
  response (\<open>MarkdownManager.addComment (workingFile, targetAgent, question, context,
  round)\<close>, called by \<open>BaseAgent.addComment\<close>).
\<close>

definition newComment :: "string \<Rightarrow> string \<Rightarrow> int \<Rightarrow> comment" where
  "newComment i target r =
     \<lparr> comment_id = i, targetAgent = target, question = ''Any findings?'',
       context_text = ''API routes'', round_no = r, status = Pending, response = None \<rparr>"

text \<open>An answer production that returns a text, and one that throws.\<close>

definition answers :: "string \<Rightarrow> comment \<Rightarrow> string \<Rightarrow> error + string" where
  "answers text q askingAgent = Inr text"

definition fails :: "comment \<Rightarrow> string \<Rightarrow> error + string" where
  "fails q askingAgent = Inl (Error ''no answer'')"

text \<open>
  An agent initialised with an output directory. \<open>createWorkingFile\<close> is not among the
  sources; the path is the one under which the agents that read other agents' reports
  look for them, \<open>join (outputDir, name + '-analysis.md')\<close>.
\<close>

definition agentIn ::
  "string \<Rightarrow> string \<Rightarrow> (comment \<Rightarrow> string \<Rightarrow> error + string) \<Rightarrow> agent" where
  "agentIn dir n r =
     \<lparr> name = n, workingFile = joinSegments dir (n @ ''-analysis.md''),
       respondToQuestion = r \<rparr>"

text \<open>
  The run of a manager as \<open>new CoordinationManager()\<close> builds it (see
  \<open>CoordinationManager_default\<close> below), on a given store.
\<close>

definition fresh :: "store \<Rightarrow> store run" where
  "fresh fs =
     begin_run \<lparr> maxRounds = 3, currentRound = 1, roundLimits = Map.empty,
                 errorLogPath = ''output/error-log.md'' \<rparr> fs"

text \<open>A asks B in round 1, and B's answer production throws.\<close>

definition staleAgents :: "agent list" where
  "staleAgents = [agentIn ''output'' ''A'' (answers ''yes''), agentIn ''output'' ''B'' fails]"

definition staleStore :: store where
  "staleStore = [''output/A-analysis.md'' \<mapsto> [newComment ''c1'' ''B'' 1],
                 ''output/B-analysis.md'' \<mapsto> []]"

text \<open>
  A has a question for B raised for round 1 and one raised for round 3; B has none.
\<close>

definition laterStore :: store where
  "laterStore = [''output/A-analysis.md'' \<mapsto> [newComment ''c1'' ''B'' 1, newComment ''c3'' ''B'' 3],
                 ''output/B-analysis.md'' \<mapsto> []]"

text \<open>
  B has a question for A raised for round 1; there is no document of A.
\<close>

definition unreadableStore :: store where
  "unreadableStore = [''output/B-analysis.md'' \<mapsto> [newComment ''b1'' ''A'' 1]]"

text \<open>
  A and B ask each other a question in round 1 and another in round 2; both answer.
\<close>

definition bothWaysAgents :: "agent list" where
  "bothWaysAgents = [agentIn ''output'' ''A'' (answers ''yes''), agentIn ''output'' ''B'' (answers ''no'')]"

definition bothWaysStore :: store where
  "bothWaysStore = [''output/A-analysis.md'' \<mapsto> [newComment ''a1'' ''B'' 1, newComment ''a2'' ''B'' 2],
                    ''output/B-analysis.md'' \<mapsto> [newComment ''b1'' ''A'' 1, newComment ''b2'' ''A'' 2]]"

text \<open>
  As before, and A has a third question for B, raised for round 3.
\<close>

definition exhaustedStore :: store where
  "exhaustedStore = [''output/A-analysis.md'' \<mapsto>
                       [newComment ''a1'' ''B'' 1, newComment ''a2'' ''B'' 2, newComment ''a3'' ''B'' 3],
                     ''output/B-analysis.md'' \<mapsto> [newComment ''b1'' ''A'' 1, newComment ''b2'' ''A'' 2]]"

text \<open>
  A created one Comment targeting B in round 1.
\<close>

definition convergeStore :: store where
  "convergeStore = [''output/A-analysis.md'' \<mapsto> [newComment ''c1'' ''B'' 1],
                    ''output/B-analysis.md'' \<mapsto> []]"

text \<open>
  Three agents. A asks B, whose answer production throws; B was initialised with the
  output directory \<open>reports\<close>, so there is no document of B under \<open>output\<close> to take the
  answer to its question; C asks A.
\<close>

definition isolationAgents :: "agent list" where
  "isolationAgents = [agentIn ''output'' ''A'' (answers ''yes''), agentIn ''reports'' ''B'' fails,
                      agentIn ''output'' ''C'' (answers ''maybe'')]"

definition isolationStore :: store where
  "isolationStore = [''output/A-analysis.md'' \<mapsto> [newComment ''a1'' ''B'' 1],
                     ''reports/B-analysis.md'' \<mapsto> [newComment ''b1'' ''A'' 1],
                     ''output/C-analysis.md'' \<mapsto> [newComment ''c1'' ''A'' 1]]"



lemmas eval_defs = runRound_def facilitateCoordination_def checkForQuestions_def
  processQuestion_def hasPendingQuestions_def findAgentFile_def storeEnv_def
  joinSegments_def readLedger_def resolveAt_def resolve_def getRoundCount_def
  incrementRoundCount_def newComment_def answers_def fails_def agentIn_def fresh_def
  begin_run_def Let_def

section \<open>Construction\<close>

lemma CoordinationManager_default:
  "CoordinationManager env [] =
     Inr \<lparr> maxRounds = 3, currentRound = 1, roundLimits = Map.empty,
           errorLogPath = join env ''output'' ''error-log.md'' \<rparr>"
  by (simp add: CoordinationManager_def)

text \<open>
  C8 (as found in the code): the constructor's only parameter is \<open>outputDir\<close>. Whatever
  arguments the caller passes, a manager that is constructed has \<open>maxRounds = 3\<close>,
  \<open>currentRound = 1\<close> and an empty table of round counts; the arguments determine the
  path of the error log only.
\<close>

theorem maxRounds_fixed_by_constructor:
  assumes "CoordinationManager env args = Inr m"
  shows "maxRounds m = 3 \<and> currentRound m = 1 \<and> roundLimits m = Map.empty"
  using assms
  by (auto simp: CoordinationManager_def Let_def split: list.splits jsval.splits)

theorem maxRounds_fixed_by_constructor_witness:
  "CoordinationManager storeEnv [Str ''reports'', Num 7]
     = Inr \<lparr> maxRounds = 3, currentRound = 1, roundLimits = Map.empty,
             errorLogPath = ''reports/error-log.md'' \<rparr>
   \<and> maxRounds \<lparr> maxRounds = 3, currentRound = 1, roundLimits = Map.empty,
                  errorLogPath = ''reports/error-log.md'' \<rparr> = 3"
proof -
  have c: "CoordinationManager storeEnv [Str ''reports'', Num 7]
     = Inr \<lparr> maxRounds = 3, currentRound = 1, roundLimits = Map.empty,
             errorLogPath = ''reports/error-log.md'' \<rparr>"
    by (simp add: CoordinationManager_def storeEnv_def joinSegments_def)
  from maxRounds_fixed_by_constructor[OF c] c show ?thesis by simp
qed

text \<open>
  C8 as the spec states it fails: a caller who supplies a round budget of 5 as a
  further argument gets a manager whose budget is 3, and one who supplies it as the
  first argument gets no manager.
\<close>

theorem maxRounds_not_configurable:
  "CoordinationManager storeEnv [Str ''output'', Num 5]
     = Inr \<lparr> maxRounds = 3, currentRound = 1, roundLimits = Map.empty,
             errorLogPath = ''output/error-log.md'' \<rparr>
   \<and> CoordinationManager storeEnv [Num 5]
     = Inl (Error ''The path argument must be of type string'')"
  by (simp add: CoordinationManager_def storeEnv_def joinSegments_def)

section \<open>Resolution of a Comment\<close>

lemma resolve_status [simp]: "status (resolve c answer) = Resolved"
  by (cases "status c") (simp_all add: resolve_def)

lemma resolve_id [simp]: "comment_id (resolve c answer) = comment_id c"
  by (simp add: resolve_def)

lemma resolve_twice: "resolve (resolve c r1) r2 = resolve c r1"
  by (simp add: resolve_def)

lemma resolveComment_twice:
  "resolveComment (resolveComment ledger i r1) i r2 = resolveComment ledger i r1"
  by (induction ledger) (simp_all add: resolve_twice)

text \<open>
  C9: resolving a Comment twice leaves it resolved with the first response, on the
  Comment and on the ledger that holds it; a resolution always yields status
  \<open>Resolved\<close>, so no resolution leads back to \<open>Pending\<close>, and the response of a Comment
  that was pending is the one of its first resolution.
\<close>

theorem resolve_idempotent:
  "resolve (resolve c r1) r2 = resolve c r1
   \<and> resolveComment (resolveComment ledger i r1) i r2 = resolveComment ledger i r1
   \<and> status (resolve c r1) = Resolved
   \<and> status (resolve (resolve c r1) r2) = Resolved
   \<and> response (resolve (resolve (c\<lparr> status := Pending \<rparr>) r1) r2) = Some r1"
  by (simp add: resolve_twice resolveComment_twice) (simp add: resolve_def)

section \<open>Termination and its bound\<close>

lemma counts_append [simp]:
  "roundsStarted (xs @ ys) = roundsStarted xs + roundsStarted ys"
  "pairAttempts (xs @ ys) = pairAttempts xs + pairAttempts ys"
  by (simp_all add: roundsStarted_def pairAttempts_def)

lemma counts_single [simp]:
  "roundsStarted [RoundStarted r] = 1" "roundsStarted [PairAttempt k] = 0"
  "roundsStarted [AnswerRequested a i] = 0"
  "pairAttempts [RoundStarted r] = 0" "pairAttempts [PairAttempt k] = 1"
  "pairAttempts [AnswerRequested a i] = 0"
  by (simp_all add: roundsStarted_def pairAttempts_def)

lemma processQuestions_counts [simp]:
  "roundsStarted (trace (processQuestions env a qs n s)) = roundsStarted (trace s)"
  "pairAttempts (trace (processQuestions env a qs n s)) = pairAttempts (trace s)"
  by (induction qs arbitrary: s) simp_all

lemma facilitateCoordination_counts [simp]:
  "roundsStarted (trace (facilitateCoordination env a1 a2 k s)) = roundsStarted (trace s)"
  "pairAttempts (trace (facilitateCoordination env a1 a2 k s)) = pairAttempts (trace s)"
  by (simp_all add: facilitateCoordination_def Let_def split: sum.splits)

lemma promiseAll_counts [simp]:
  "roundsStarted (trace (promiseAll env ps s)) = roundsStarted (trace s)"
  "pairAttempts (trace (promiseAll env ps s)) = pairAttempts (trace s)"
  by (induction ps arbitrary: s) auto

lemma coordinationLoop_counts:
  "coordinationLoop ps s = (s', qs) \<Longrightarrow>
     roundsStarted (trace s') = roundsStarted (trace s)
     \<and> pairAttempts (trace s') = pairAttempts (trace s) + length qs
     \<and> length qs \<le> length ps"
proof (induction ps arbitrary: s s' qs)
  case Nil
  then show ?case by simp
next
  case (Cons p ps)
  obtain agent1 agent2 where p: "p = (agent1, agent2)" by (cases p)
  let ?k = "name agent1 @ ''-'' @ name agent2"
  show ?case
  proof (cases "getRoundCount s ?k \<ge> maxRounds s")
    case True
    with Cons.prems p have "coordinationLoop ps (logCoordinationTimeout ?k [] s) = (s', qs)"
      by simp
    from Cons.IH[OF this] show ?thesis by simp
  next
    case False
    obtain t ts where r: "coordinationLoop ps (s\<lparr> trace := trace s @ [PairAttempt ?k] \<rparr>) = (t, ts)"
      by (cases "coordinationLoop ps (s\<lparr> trace := trace s @ [PairAttempt ?k] \<rparr>)")
    with Cons.prems p False have "s' = t" "qs = (agent1, agent2, ?k) # ts" by simp_all
    with Cons.IH[OF r] show ?thesis by simp
  qed
qed

lemma length_getAgentPairs: "length (getAgentPairs xs) = length xs * (length xs - 1) div 2"
proof (induction xs)
  case Nil
  then show ?case by simp
next
  case (Cons a xs)
  have "length xs + length xs * (length xs - 1) div 2 = (length xs + 1) * length xs div 2"
    by (cases "length xs") (simp_all add: algebra_simps)
  with Cons show ?case by simp
qed

lemma runRound_counts:
  "roundsStarted (trace (runRound env agents s)) = roundsStarted (trace s) + 1"
  "pairAttempts (trace (runRound env agents s))
     \<le> pairAttempts (trace s) + length agents * (length agents - 1) div 2"
proof -
  let ?s0 = "s\<lparr> trace := trace s @ [RoundStarted (currentRound s)] \<rparr>"
  obtain s1 ps where c: "coordinationLoop (getAgentPairs agents) ?s0 = (s1, ps)"
    by (cases "coordinationLoop (getAgentPairs agents) ?s0")
  from coordinationLoop_counts[OF c]
  show "roundsStarted (trace (runRound env agents s)) = roundsStarted (trace s) + 1"
    "pairAttempts (trace (runRound env agents s))
     \<le> pairAttempts (trace s) + length agents * (length agents - 1) div 2"
    by (simp_all add: runRound_def c length_getAgentPairs)
qed

lemma startCoordinationRound_counts:
  "roundsStarted (trace (fst (startCoordinationRound env agents s)))
     \<le> roundsStarted (trace s) + roundBudget s
   \<and> pairAttempts (trace (fst (startCoordinationRound env agents s)))
     \<le> pairAttempts (trace s) + roundBudget s * (length agents * (length agents - 1) div 2)"
proof (induction env agents s rule: startCoordinationRound.induct)
  case (1 env agents s)
  let ?P = "length agents * (length agents - 1) div 2"
  let ?s' = "runRound env agents s"
  let ?next = "?s'\<lparr> currentRound := currentRound ?s' + 1 \<rparr>"
  note r = runRound_counts[of env agents s]
  show ?case
  proof (cases "currentRound ?s' < maxRounds ?s' \<and> hasPendingQuestions env agents ?s' = Inr True")
    case True
    then have eq: "startCoordinationRound env agents s = startCoordinationRound env agents ?next"
      by (subst startCoordinationRound.simps) (simp add: Let_def)
    from True have IH: "roundsStarted (trace (fst (startCoordinationRound env agents ?next)))
         \<le> roundsStarted (trace ?next) + roundBudget ?next
       \<and> pairAttempts (trace (fst (startCoordinationRound env agents ?next)))
         \<le> pairAttempts (trace ?next) + roundBudget ?next * ?P"
      using "1.IH"[of ?s' True] by simp
    from True have b: "roundBudget s = roundBudget ?next + 1"
      by (auto simp: roundBudget_def)
    from IH r b show ?thesis unfolding eq by (simp add: algebra_simps)
  next
    case False
    then have eq: "fst (startCoordinationRound env agents s) = ?s'"
      by (subst startCoordinationRound.simps) (auto simp: Let_def split: sum.splits)
    have "1 \<le> roundBudget s" by (simp add: roundBudget_def)
    then have "?P \<le> roundBudget s * ?P" by simp
    with r show ?thesis unfolding eq roundBudget_def by auto
  qed
qed

text \<open>
  C1: a call of \<open>startCoordinationRound\<close> on a manager in round 1 with a budget of
  \<open>k = maxRounds\<close> rounds (\<open>k \<ge> 1\<close>; the constructor sets 3) returns, having opened at
  most \<open>k\<close> rounds and called \<open>facilitateCoordination\<close> at most \<open>k * n * (n - 1) / 2\<close>
  times for \<open>n\<close> agents. (The function is total: its termination is proved with the
  measure \<open>maxRounds - currentRound\<close>.)
\<close>

theorem termination_bound:
  assumes "currentRound s = 1" and "1 \<le> maxRounds s"
  shows "roundsStarted (trace (fst (startCoordinationRound env agents s)))
           \<le> roundsStarted (trace s) + nat (maxRounds s)
         \<and> pairAttempts (trace (fst (startCoordinationRound env agents s)))
           \<le> pairAttempts (trace s)
              + nat (maxRounds s) * (length agents * (length agents - 1) div 2)"
proof -
  from assms have "roundBudget s = nat (maxRounds s)"
    by (auto simp: roundBudget_def)
  with startCoordinationRound_counts[of env agents s] show ?thesis by simp
qed

theorem termination_bound_witness:
  "currentRound (fresh staleStore) = 1 \<and> 1 \<le> maxRounds (fresh staleStore)
   \<and> roundsStarted (trace (fst (startCoordinationRound storeEnv staleAgents (fresh staleStore))))
       \<le> 3
   \<and> pairAttempts (trace (fst (startCoordinationRound storeEnv staleAgents (fresh staleStore))))
       \<le> 3"
proof -
  have h: "currentRound (fresh staleStore) = 1" "1 \<le> maxRounds (fresh staleStore)"
    by (simp_all add: fresh_def begin_run_def)
  have "trace (fresh staleStore) = []" "maxRounds (fresh staleStore) = 3"
    "length staleAgents = 2"
    by (simp_all add: fresh_def begin_run_def staleAgents_def)
  with termination_bound[OF h, of storeEnv staleAgents] h show ?thesis
    by (simp add: roundsStarted_def pairAttempts_def)
qed

section \<open>Which Comments a round attempts\<close>

lemma processQuestions_trace:
  "trace (processQuestions env a qs n s)
     = trace s @ map (\<lambda>q. AnswerRequested (name a) (comment_id q)) qs"
  by (induction qs arbitrary: s) simp_all

lemma facilitateCoordination_first_direction:
  assumes "checkForQuestions env s agent1 (name agent2) = Inr qs" and "c \<in> set qs"
  shows "AnswerRequested (name agent2) (comment_id c)
           \<in> set (trace (facilitateCoordination env agent1 agent2 pairKey s))"
proof -
  let ?s1 = "incrementRoundCount pairKey (processQuestions env agent2 qs (name agent1) s)"
  from assms have ne: "length qs > 0" by (cases qs) simp_all
  have in1: "AnswerRequested (name agent2) (comment_id c) \<in> set (trace ?s1)"
    using assms(2) by (simp add: processQuestions_trace)
  show ?thesis
  proof (cases "checkForQuestions env ?s1 agent2 (name agent1)")
    case (Inl e)
    with assms(1) ne in1 show ?thesis
      by (simp add: facilitateCoordination_def Let_def)
  next
    case (Inr qs2)
    with assms(1) ne in1 show ?thesis
      by (auto simp: facilitateCoordination_def Let_def processQuestions_trace)
  qed
qed

lemma facilitateCoordination_trace:
  "\<exists>more. trace (facilitateCoordination env a1 a2 key s) = trace s @ more"
  by (simp add: facilitateCoordination_def Let_def processQuestions_trace split: sum.splits)

lemma promiseAll_trace:
  "\<exists>more. trace (promiseAll env ps s) = trace s @ more"
proof (induction ps arbitrary: s)
  case Nil
  then show ?case by simp
next
  case (Cons p ps)
  obtain a1 a2 key where p: "p = (a1, a2, key)" by (cases p)
  from facilitateCoordination_trace[of env a1 a2 key s] obtain m1
    where "trace (facilitateCoordination env a1 a2 key s) = trace s @ m1" by auto
  moreover from Cons[of "facilitateCoordination env a1 a2 key s"] obtain m2
    where "trace (promiseAll env ps (facilitateCoordination env a1 a2 key s))
        = trace (facilitateCoordination env a1 a2 key s) @ m2" by auto
  ultimately show ?case using p by simp
qed

lemma runRound_first_pair:
  assumes "getRoundCount s (name agent1 @ ''-'' @ name agent2) < maxRounds s"
    and "readComments env (files s) (workingFile agent1) = Inr comments"
    and "c \<in> set comments" and "targetAgent c = name agent2"
    and "status c = Pending" and "round_no c = currentRound s"
  shows "AnswerRequested (name agent2) (comment_id c)
           \<in> set (trace (runRound env (agent1 # agent2 # others) s))"
proof -
  let ?k = "name agent1 @ ''-'' @ name agent2"
  let ?s0 = "s\<lparr> trace := trace s @ [RoundStarted (currentRound s)] \<rparr>"
  let ?s0' = "?s0\<lparr> trace := trace ?s0 @ [PairAttempt ?k] \<rparr>"
  let ?rest = "map (Pair agent1) others @ getAgentPairs (agent2 # others)"
  obtain s1 ps where c: "coordinationLoop ?rest ?s0' = (s1, ps)"
    by (cases "coordinationLoop ?rest ?s0'")
  from coordinationLoop_keeps[OF c]
  have k: "files s1 = files s" "currentRound s1 = currentRound s" by simp_all
  from assms(1) c
  have run: "runRound env (agent1 # agent2 # others) s
      = promiseAll env ps (facilitateCoordination env agent1 agent2 ?k s1)"
    by (simp add: runRound_def getRoundCount_def)
  from assms k have "checkForQuestions env s1 agent1 (name agent2)
      = Inr (filter (\<lambda>c. targetAgent c = name agent2 \<and> status c = Pending
                            \<and> round_no c = currentRound s1) comments)"
    by (simp add: checkForQuestions_def)
  moreover from assms k have "c \<in> set (filter (\<lambda>c. targetAgent c = name agent2 \<and> status c = Pending
                            \<and> round_no c = currentRound s1) comments)" by simp
  ultimately have "AnswerRequested (name agent2) (comment_id c)
      \<in> set (trace (facilitateCoordination env agent1 agent2 ?k s1))"
    by (rule facilitateCoordination_first_direction)
  moreover from promiseAll_trace[of env ps "facilitateCoordination env agent1 agent2 ?k s1"]
  obtain m where "trace (promiseAll env ps (facilitateCoordination env agent1 agent2 ?k s1))
      = trace (facilitateCoordination env agent1 agent2 ?k s1) @ m" by auto
  ultimately show ?thesis by (simp add: run)
qed

lemma getRoundCount_trace [simp]:
  "getRoundCount (s\<lparr> trace := t \<rparr>) k = getRoundCount s k"
  by (simp add: getRoundCount_def)

lemma getRoundCount_logCoordinationTimeout [simp]:
  "getRoundCount (logCoordinationTimeout key qs s) k = getRoundCount s k"
  by (simp add: getRoundCount_def)

lemma coordinationLoop_promises:
  "snd (coordinationLoop pairs s)
     = map (\<lambda>(agent1, agent2). (agent1, agent2, name agent1 @ ''-'' @ name agent2))
         (filter (\<lambda>(agent1, agent2).
                    getRoundCount s (name agent1 @ ''-'' @ name agent2) < maxRounds s) pairs)"
proof (induction pairs arbitrary: s)
  case Nil
  then show ?case by simp
next
  case (Cons p pairs)
  obtain agent1 agent2 where p: "p = (agent1, agent2)" by (cases p)
  let ?k = "name agent1 @ ''-'' @ name agent2"
  show ?case
  proof (cases "getRoundCount s ?k \<ge> maxRounds s")
    case True
    with Cons[of "logCoordinationTimeout ?k [] s"] p show ?thesis by simp
  next
    case False
    obtain t ts where r: "coordinationLoop pairs (s\<lparr> trace := trace s @ [PairAttempt ?k] \<rparr>) = (t, ts)"
      by (cases "coordinationLoop pairs (s\<lparr> trace := trace s @ [PairAttempt ?k] \<rparr>)")
    with Cons[of "s\<lparr> trace := trace s @ [PairAttempt ?k] \<rparr>"] p False show ?thesis
      by simp
  qed
qed

lemma runRound_pairs:
  "runRound env agents s
     = promiseAll env
         (map (\<lambda>(agent1, agent2). (agent1, agent2, name agent1 @ ''-'' @ name agent2))
            (filter (\<lambda>(agent1, agent2).
                       getRoundCount s (name agent1 @ ''-'' @ name agent2) < maxRounds s)
               (getAgentPairs agents)))
         (fst (coordinationLoop (getAgentPairs agents)
                 (s\<lparr> trace := trace s @ [RoundStarted (currentRound s)] \<rparr>)))"
proof -
  let ?s0 = "s\<lparr> trace := trace s @ [RoundStarted (currentRound s)] \<rparr>"
  obtain s1 ps where c: "coordinationLoop (getAgentPairs agents) ?s0 = (s1, ps)"
    by (cases "coordinationLoop (getAgentPairs agents) ?s0")
  with coordinationLoop_promises[of "getAgentPairs agents" ?s0] show ?thesis
    by (simp add: runRound_def)
qed

lemma facilitateCoordination_requests:
  "trace (facilitateCoordination env agent1 agent2 pairKey s)
     = trace s @
       (case readComments env (files s) (workingFile agent1) of
          Inl e \<Rightarrow> []
        | Inr comments1 \<Rightarrow>
            map (\<lambda>c. AnswerRequested (name agent2) (comment_id c))
              (filter (\<lambda>c. targetAgent c = name agent2 \<and> status c = Pending
                              \<and> round_no c = currentRound s) comments1)
            @ (case readComments env
                      (files (processQuestions env agent2
                                (filter (\<lambda>c. targetAgent c = name agent2 \<and> status c = Pending
                                                \<and> round_no c = currentRound s) comments1)
                                (name agent1) s))
                      (workingFile agent2) of
                 Inl e \<Rightarrow> []
               | Inr comments2 \<Rightarrow>
                   map (\<lambda>c. AnswerRequested (name agent1) (comment_id c))
                     (filter (\<lambda>c. targetAgent c = name agent1 \<and> status c = Pending
                                     \<and> round_no c = currentRound s) comments2)))"
proof (cases "readComments env (files s) (workingFile agent1)")
  case (Inl e)
  then show ?thesis
    by (simp add: facilitateCoordination_def checkForQuestions_def)
next
  case (Inr comments1)
  let ?q12 = "filter (\<lambda>c. targetAgent c = name agent2 \<and> status c = Pending
                              \<and> round_no c = currentRound s) comments1"
  let ?p = "processQuestions env agent2 ?q12 (name agent1) s"
  show ?thesis
  proof (cases "?q12 = []")
    case True
    show ?thesis
    proof (cases "readComments env (files s) (workingFile agent2)")
      case (Inl e)
      with Inr True show ?thesis
        by (simp add: facilitateCoordination_def checkForQuestions_def Let_def)
    next
      case r2: (Inr comments2)
      with Inr True show ?thesis
        by (simp add: facilitateCoordination_def checkForQuestions_def Let_def
            processQuestions_trace)
    qed
  next
    case False
    show ?thesis
    proof (cases "readComments env (files ?p) (workingFile agent2)")
      case (Inl e)
      with Inr False show ?thesis
        by (simp add: facilitateCoordination_def checkForQuestions_def Let_def
            processQuestions_trace)
    next
      case r2: (Inr comments2)
      with Inr False show ?thesis
        by (simp add: facilitateCoordination_def checkForQuestions_def Let_def
            processQuestions_trace)
    qed
  qed
qed

text \<open>
  C2 (as found in the code): a pending Comment is attempted only in the round whose
  number is its \<open>round\<close>, and only as far as the processing of its pair gets. A round
  calls \<open>facilitateCoordination\<close> for exactly the pairs whose counter at the start of the
  round is below \<open>maxRounds\<close>. When a pair is processed, the answer productions invoked
  are exactly these, in this order: none if the first agent's document cannot be read;
  otherwise the second agent's for every Comment of the first agent's document that
  targets the second agent, is pending and has \<open>round = currentRound\<close>, and then, if the
  second agent's document can be read at that point, the first agent's for every
  Comment of that document that targets the first agent, is pending and has
  \<open>round = currentRound\<close>. For the first pair of the agent list the first of these
  documents is read as the round finds it.
\<close>

theorem attempts_follow_the_round_number:
  "runRound env agents s
     = promiseAll env
         (map (\<lambda>(agent1, agent2). (agent1, agent2, name agent1 @ ''-'' @ name agent2))
            (filter (\<lambda>(agent1, agent2).
                       getRoundCount s (name agent1 @ ''-'' @ name agent2) < maxRounds s)
               (getAgentPairs agents)))
         (fst (coordinationLoop (getAgentPairs agents)
                 (s\<lparr> trace := trace s @ [RoundStarted (currentRound s)] \<rparr>)))
   \<and> trace (facilitateCoordination env agent1 agent2 pairKey s)
     = trace s @
       (case readComments env (files s) (workingFile agent1) of
          Inl e \<Rightarrow> []
        | Inr comments1 \<Rightarrow>
            map (\<lambda>c. AnswerRequested (name agent2) (comment_id c))
              (filter (\<lambda>c. targetAgent c = name agent2 \<and> status c = Pending
                              \<and> round_no c = currentRound s) comments1)
            @ (case readComments env
                      (files (processQuestions env agent2
                                (filter (\<lambda>c. targetAgent c = name agent2 \<and> status c = Pending
                                                \<and> round_no c = currentRound s) comments1)
                                (name agent1) s))
                      (workingFile agent2) of
                 Inl e \<Rightarrow> []
               | Inr comments2 \<Rightarrow>
                   map (\<lambda>c. AnswerRequested (name agent1) (comment_id c))
                     (filter (\<lambda>c. targetAgent c = name agent1 \<and> status c = Pending
                                     \<and> round_no c = currentRound s) comments2)))
   \<and> (readComments env (files s) (workingFile agent1) = Inl err \<longrightarrow>
        trace (facilitateCoordination env agent1 agent2 pairKey s) = trace s)
   \<and> (readComments env (files s) (workingFile agent1) = Inr ledger1
        \<and> c1 \<in> set ledger1 \<and> targetAgent c1 = name agent2
        \<and> status c1 = Pending \<and> round_no c1 = currentRound s \<longrightarrow>
        AnswerRequested (name agent2) (comment_id c1)
          \<in> set (trace (facilitateCoordination env agent1 agent2 pairKey s)))
   \<and> (readComments env (files s) (workingFile agent1) = Inr ledger1
        \<and> readComments env
             (files (processQuestions env agent2
                       (filter (\<lambda>c. targetAgent c = name agent2 \<and> status c = Pending
                                       \<and> round_no c = currentRound s) ledger1)
                       (name agent1) s))
             (workingFile agent2) = Inr ledger2
        \<and> c2 \<in> set ledger2 \<and> targetAgent c2 = name agent1
        \<and> status c2 = Pending \<and> round_no c2 = currentRound s \<longrightarrow>
        AnswerRequested (name agent1) (comment_id c2)
          \<in> set (trace (facilitateCoordination env agent1 agent2 pairKey s)))
   \<and> (getRoundCount s (name agent1 @ ''-'' @ name agent2) < maxRounds s
        \<and> readComments env (files s) (workingFile agent1) = Inr ledger1
        \<and> c1 \<in> set ledger1 \<and> targetAgent c1 = name agent2
        \<and> status c1 = Pending \<and> round_no c1 = currentRound s \<longrightarrow>
        AnswerRequested (name agent2) (comment_id c1)
          \<in> set (trace (runRound env (agent1 # agent2 # others) s)))"
proof -
  note P = facilitateCoordination_requests[of env agent1 agent2 pairKey s]
  have N: "readComments env (files s) (workingFile agent1) = Inl err \<longrightarrow>
        trace (facilitateCoordination env agent1 agent2 pairKey s) = trace s"
    using P by simp
  have M1: "readComments env (files s) (workingFile agent1) = Inr ledger1
        \<and> c1 \<in> set ledger1 \<and> targetAgent c1 = name agent2
        \<and> status c1 = Pending \<and> round_no c1 = currentRound s \<longrightarrow>
        AnswerRequested (name agent2) (comment_id c1)
          \<in> set (trace (facilitateCoordination env agent1 agent2 pairKey s))"
    using P by auto
  have M2: "readComments env (files s) (workingFile agent1) = Inr ledger1
        \<and> readComments env
             (files (processQuestions env agent2
                       (filter (\<lambda>c. targetAgent c = name agent2 \<and> status c = Pending
                                       \<and> round_no c = currentRound s) ledger1)
                       (name agent1) s))
             (workingFile agent2) = Inr ledger2
        \<and> c2 \<in> set ledger2 \<and> targetAgent c2 = name agent1
        \<and> status c2 = Pending \<and> round_no c2 = currentRound s \<longrightarrow>
        AnswerRequested (name agent1) (comment_id c2)
          \<in> set (trace (facilitateCoordination env agent1 agent2 pairKey s))"
    using P by auto
  have M3: "getRoundCount s (name agent1 @ ''-'' @ name agent2) < maxRounds s
        \<and> readComments env (files s) (workingFile agent1) = Inr ledger1
        \<and> c1 \<in> set ledger1 \<and> targetAgent c1 = name agent2
        \<and> status c1 = Pending \<and> round_no c1 = currentRound s \<longrightarrow>
        AnswerRequested (name agent2) (comment_id c1)
          \<in> set (trace (runRound env (agent1 # agent2 # others) s))"
    using runRound_first_pair[of s agent1 agent2 env ledger1 c1 others] by blast
  from runRound_pairs[of env agents s] P N M1 M2 M3 show ?thesis
    by (intro conjI)
qed

theorem attempts_follow_the_round_number_witness:
  "AnswerRequested ''B'' ''c1''
     \<in> set (trace (facilitateCoordination storeEnv (agentIn ''output'' ''A'' (answers ''yes''))
                      (agentIn ''output'' ''B'' fails) ''A-B'' (fresh staleStore)))
   \<and> AnswerRequested ''B'' ''c1''
     \<in> set (trace (runRound storeEnv [agentIn ''output'' ''A'' (answers ''yes''),
                      agentIn ''output'' ''B'' fails] (fresh staleStore)))
   \<and> AnswerRequested ''A'' ''b1''
     \<in> set (trace (facilitateCoordination storeEnv (agentIn ''output'' ''A'' (answers ''yes''))
                      (agentIn ''output'' ''B'' (answers ''no'')) ''A-B'' (fresh bothWaysStore)))
   \<and> readComments storeEnv (files (fresh unreadableStore)) ''output/A-analysis.md''
       = Inl (Error ''StorageError'')
   \<and> readComments storeEnv (files (fresh unreadableStore)) ''output/B-analysis.md''
       = Inr [newComment ''b1'' ''A'' 1]
   \<and> trace (facilitateCoordination storeEnv (agentIn ''output'' ''A'' (answers ''yes''))
              (agentIn ''output'' ''B'' (answers ''no'')) ''A-B'' (fresh unreadableStore))
       = []"
proof -
  let ?A = "agentIn ''output'' ''A'' (answers ''yes'')"
  let ?B = "agentIn ''output'' ''B'' fails"
  let ?B' = "agentIn ''output'' ''B'' (answers ''no'')"
  have h: "readComments storeEnv (files (fresh staleStore)) (workingFile ?A)
        = Inr [newComment ''c1'' ''B'' 1]
      \<and> newComment ''c1'' ''B'' 1 \<in> set [newComment ''c1'' ''B'' 1]
      \<and> targetAgent (newComment ''c1'' ''B'' 1) = name ?B
      \<and> status (newComment ''c1'' ''B'' 1) = Pending
      \<and> round_no (newComment ''c1'' ''B'' 1) = currentRound (fresh staleStore)"
    by (simp add: staleStore_def eval_defs)
  have g: "getRoundCount (fresh staleStore) (name ?A @ ''-'' @ name ?B)
      < maxRounds (fresh staleStore)"
    by (simp add: eval_defs)
  note T1 = attempts_follow_the_round_number[where env = storeEnv and s = "fresh staleStore"
      and ?agent1.0 = ?A and ?agent2.0 = ?B and pairKey = "''A-B''" and others = "[]"
      and ?ledger1.0 = "[newComment ''c1'' ''B'' 1]" and ?c1.0 = "newComment ''c1'' ''B'' 1"]
  from T1 h have m1: "AnswerRequested (name ?B) (comment_id (newComment ''c1'' ''B'' 1))
      \<in> set (trace (facilitateCoordination storeEnv ?A ?B ''A-B'' (fresh staleStore)))"
    by blast
  from T1 h g have m3: "AnswerRequested (name ?B) (comment_id (newComment ''c1'' ''B'' 1))
      \<in> set (trace (runRound storeEnv [?A, ?B] (fresh staleStore)))"
    by blast
  have h2: "readComments storeEnv (files (fresh bothWaysStore)) (workingFile ?A)
        = Inr [newComment ''a1'' ''B'' 1, newComment ''a2'' ''B'' 2]
      \<and> readComments storeEnv
           (files (processQuestions storeEnv ?B'
                     (filter (\<lambda>c. targetAgent c = name ?B' \<and> status c = Pending
                                     \<and> round_no c = currentRound (fresh bothWaysStore))
                        [newComment ''a1'' ''B'' 1, newComment ''a2'' ''B'' 2])
                     (name ?A) (fresh bothWaysStore)))
           (workingFile ?B')
        = Inr [newComment ''b1'' ''A'' 1, newComment ''b2'' ''A'' 2]
      \<and> newComment ''b1'' ''A'' 1 \<in> set [newComment ''b1'' ''A'' 1, newComment ''b2'' ''A'' 2]
      \<and> targetAgent (newComment ''b1'' ''A'' 1) = name ?A
      \<and> status (newComment ''b1'' ''A'' 1) = Pending
      \<and> round_no (newComment ''b1'' ''A'' 1) = currentRound (fresh bothWaysStore)"
    by (simp add: bothWaysStore_def eval_defs)
  from attempts_follow_the_round_number[where env = storeEnv and s = "fresh bothWaysStore"
      and ?agent1.0 = ?A and ?agent2.0 = ?B' and pairKey = "''A-B''"
      and ?ledger1.0 = "[newComment ''a1'' ''B'' 1, newComment ''a2'' ''B'' 2]"
      and ?ledger2.0 = "[newComment ''b1'' ''A'' 1, newComment ''b2'' ''A'' 2]"
      and ?c2.0 = "newComment ''b1'' ''A'' 1"] h2
  have m2: "AnswerRequested (name ?A) (comment_id (newComment ''b1'' ''A'' 1))
      \<in> set (trace (facilitateCoordination storeEnv ?A ?B' ''A-B'' (fresh bothWaysStore)))"
    by blast
  have h3: "readComments storeEnv (files (fresh unreadableStore)) (workingFile ?A)
      = Inl (Error ''StorageError'')"
    "readComments storeEnv (files (fresh unreadableStore)) ''output/B-analysis.md''
       = Inr [newComment ''b1'' ''A'' 1]"
    "trace (fresh unreadableStore) = []"
    by (simp_all add: unreadableStore_def eval_defs)
  from attempts_follow_the_round_number[where env = storeEnv and s = "fresh unreadableStore"
      and ?agent1.0 = ?A and ?agent2.0 = ?B' and pairKey = "''A-B''"
      and err = "Error ''StorageError''"] h3(1)
  have n: "trace (facilitateCoordination storeEnv ?A ?B' ''A-B'' (fresh unreadableStore))
      = trace (fresh unreadableStore)"
    by blast
  from m1 m2 m3 n h3 show ?thesis
    by (simp add: agentIn_def newComment_def joinSegments_def)
qed

text \<open>
  C2 as the spec states it fails. In the first run A's Comment \<open>c1\<close> of round 1, whose
  answer production threw, is still pending when rounds 2 and 3 start and the pair's
  counter is 1 of 3, yet neither round invokes an answer production for it. In the
  second run, where every answer is produced, A's Comment \<open>c3\<close> raised for round 3 is
  pending when rounds 1 and 2 start and is attempted in neither.
\<close>

theorem stale_pending_comment_not_attempted:
  "trace (fst (startCoordinationRound storeEnv staleAgents (fresh staleStore)))
     = [RoundStarted 1, PairAttempt ''A-B'', AnswerRequested ''B'' ''c1'',
        RoundStarted 2, PairAttempt ''A-B'', RoundStarted 3, PairAttempt ''A-B'']
   \<and> files (fst (startCoordinationRound storeEnv staleAgents (fresh staleStore)))
        ''output/A-analysis.md'' = Some [newComment ''c1'' ''B'' 1]
   \<and> roundLimits (fst (startCoordinationRound storeEnv staleAgents (fresh staleStore))) ''A-B''
        = Some 1
   \<and> trace (fst (startCoordinationRound storeEnv bothWaysAgents (fresh laterStore)))
     = [RoundStarted 1, PairAttempt ''A-B'', AnswerRequested ''B'' ''c1'',
        RoundStarted 2, PairAttempt ''A-B'',
        RoundStarted 3, PairAttempt ''A-B'', AnswerRequested ''B'' ''c3'']"
  by (simp add: startCoordinationRound.simps staleAgents_def staleStore_def bothWaysAgents_def
      laterStore_def eval_defs)

section \<open>The round counter of a pair\<close>

lemma getRoundCount_increment [simp]:
  "getRoundCount (incrementRoundCount key s) k
     = (if k = key then getRoundCount s k + 1 else getRoundCount s k)"
  by (simp add: getRoundCount_def incrementRoundCount_def)

lemma getRoundCount_processQuestions [simp]:
  "getRoundCount (processQuestions env a qs n s) k = getRoundCount s k"
  by (simp add: getRoundCount_def)

lemma getRoundCount_logError [simp]:
  "getRoundCount (logError m s) k = getRoundCount s k"
  by (simp add: getRoundCount_def)

lemma facilitateCoordination_roundCount:
  "getRoundCount s k \<le> getRoundCount (facilitateCoordination env a1 a2 key s) k"
  by (simp add: facilitateCoordination_def Let_def split: sum.splits)

lemma promiseAll_roundCount:
  "getRoundCount s k \<le> getRoundCount (promiseAll env ps s) k"
proof (induction ps arbitrary: s)
  case Nil
  then show ?case by simp
next
  case (Cons p ps)
  obtain a1 a2 key where p: "p = (a1, a2, key)" by (cases p)
  from facilitateCoordination_roundCount[of s k env a1 a2 key]
    Cons[of "facilitateCoordination env a1 a2 key s"] p
  show ?case by simp
qed

lemma runRound_roundCount:
  "getRoundCount s k \<le> getRoundCount (runRound env agents s) k"
proof -
  let ?s0 = "s\<lparr> trace := trace s @ [RoundStarted (currentRound s)] \<rparr>"
  obtain s1 ps where c: "coordinationLoop (getAgentPairs agents) ?s0 = (s1, ps)"
    by (cases "coordinationLoop (getAgentPairs agents) ?s0")
  from coordinationLoop_keeps[OF c] have "getRoundCount s1 k = getRoundCount s k"
    by (simp add: getRoundCount_def)
  with promiseAll_roundCount[of s1 k env ps] show ?thesis
    by (simp add: runRound_def c)
qed

text \<open>
  The counter of a pair never decreases over a call.
\<close>

lemma roundCount_monotone:
  "getRoundCount s k \<le> getRoundCount (fst (startCoordinationRound env agents s)) k"
proof (induction env agents s rule: startCoordinationRound.induct)
  case (1 env agents s)
  let ?s' = "runRound env agents s"
  let ?next = "?s'\<lparr> currentRound := currentRound ?s' + 1 \<rparr>"
  note r = runRound_roundCount[of s k env agents]
  show ?case
  proof (cases "currentRound ?s' < maxRounds ?s' \<and> hasPendingQuestions env agents ?s' = Inr True")
    case True
    then have eq: "startCoordinationRound env agents s = startCoordinationRound env agents ?next"
      by (subst startCoordinationRound.simps) (simp add: Let_def)
    from True "1.IH"[of ?s' True]
    have "getRoundCount ?next k \<le> getRoundCount (fst (startCoordinationRound env agents ?next)) k"
      by simp
    moreover have "getRoundCount ?next k = getRoundCount ?s' k" by (simp add: getRoundCount_def)
    ultimately show ?thesis using r unfolding eq by simp
  next
    case False
    then have eq: "fst (startCoordinationRound env agents s) = ?s'"
      by (subst startCoordinationRound.simps) (auto simp: Let_def split: sum.splits)
    with r show ?thesis by simp
  qed
qed

text \<open>
  C3 does not hold of the code: \<open>facilitateCoordination\<close> increments the pair's counter
  once for each direction that had questions. With questions in both directions in
  rounds 1 and 2 the counter of the pair A-B is 4 after two rounds, above
  \<open>maxRounds = 3\<close>.
\<close>

theorem round_counter_exceeds_maxRounds:
  "roundLimits (fst (startCoordinationRound storeEnv bothWaysAgents (fresh bothWaysStore))) ''A-B''
     = Some 4
   \<and> maxRounds (fst (startCoordinationRound storeEnv bothWaysAgents (fresh bothWaysStore))) = 3
   \<and> roundsStarted (trace (fst (startCoordinationRound storeEnv bothWaysAgents (fresh bothWaysStore)))) = 2"
  by (simp add: startCoordinationRound.simps bothWaysAgents_def bothWaysStore_def eval_defs roundsStarted_def)

section \<open>The timeout entry\<close>

text \<open>
  C4 does not hold of the code: \<open>startCoordinationRound\<close> calls
  \<open>logCoordinationTimeout (pairKey, [])\<close>, so the timeout entry lists no question. Here
  round 3 starts with the counter of A-B at 4; the pair is skipped and the entry is
  written with an empty list, while A's Comment \<open>a3\<close> for B is still pending.
\<close>

theorem timeout_entry_lists_no_questions:
  "errorLog (fst (startCoordinationRound storeEnv bothWaysAgents (fresh exhaustedStore)))
     = [CoordinationTimeout ''A-B'' 3 []]
   \<and> checkPendingQuestions storeEnv bothWaysAgents
        (fst (startCoordinationRound storeEnv bothWaysAgents (fresh exhaustedStore)))
     = Inr [newComment ''a3'' ''B'' 3]
   \<and> roundLimits (fst (startCoordinationRound storeEnv bothWaysAgents (fresh exhaustedStore))) ''A-B''
     = Some 4"
  by (simp add: startCoordinationRound.simps bothWaysAgents_def exhaustedStore_def eval_defs)

section \<open>Isolation of failures\<close>

lemma storeEnv_join [simp]: "storeEnv\<lparr> join := joinSegments \<rparr> = storeEnv"
  by (simp add: storeEnv_def)

lemma resolveComment_ids [simp]:
  "map comment_id (resolveComment ledger j answer) = map comment_id ledger"
  by (induction ledger) simp_all



lemma set_ids_resolveComment [simp]:
  "comment_id ` set (resolveComment ledger j answer) = comment_id ` set ledger"
  using resolveComment_ids[of ledger j answer] by (metis list.set_map)



















text \<open>
  The isolation covers what happens while Comments are processed. The test for another
  round reads every agent's working file outside any \<open>try\<close>: with B's working file
  missing from the store, the pairs that involve B fail and are logged, C's question to
  A is resolved, and the call then ends with the storage error.
\<close>

lemma unreadable_working_file_ends_the_call:
  "snd (startCoordinationRound storeEnv isolationAgents
          (fresh (isolationStore(''reports/B-analysis.md'' := None))))
     = Inl (Error ''StorageError'')
   \<and> files (fst (startCoordinationRound storeEnv isolationAgents
          (fresh (isolationStore(''reports/B-analysis.md'' := None))))) ''output/C-analysis.md''
     = Some [(newComment ''c1'' ''A'' 1)\<lparr> status := Resolved, response := Some ''yes'' \<rparr>]
   \<and> set (errorLog (fst (startCoordinationRound storeEnv isolationAgents
          (fresh (isolationStore(''reports/B-analysis.md'' := None))))))
     = {ErrorEntry ''Error processing question from A to B: no answer'',
        ErrorEntry ''Coordination error between A and B: StorageError'',
        ErrorEntry ''Coordination error between B and C: StorageError''}"
  by (simp add: startCoordinationRound.simps isolationAgents_def isolationStore_def eval_defs
      insert_commute)

section \<open>Convergence and the returned value\<close>

lemma checkPendingQuestions_none:
  assumes "\<forall>a \<in> set agents. \<exists>cs. readComments env (files s) (workingFile a) = Inr cs
             \<and> (\<forall>c \<in> set cs. status c \<noteq> Pending)"
  shows "checkPendingQuestions env agents s = Inr []"
  using assms
proof (induction agents)
  case Nil
  then show ?case by simp
next
  case (Cons a agents)
  then obtain cs where cs: "readComments env (files s) (workingFile a) = Inr cs"
    "\<forall>c \<in> set cs. status c \<noteq> Pending" by auto
  then have "filter (\<lambda>c. status c = Pending) cs = []" by (simp add: filter_empty_conv)
  with Cons cs show ?case by simp
qed

text \<open>
  C6: if after a round every agent's document is readable and holds no pending
  Comment, whatever the rounds of its Comments, \<open>startCoordinationRound\<close> returns after
  that round: it opens exactly one round. The witness is the convergence scenario: A's
  one Comment for B of round 1 is resolved, and one round is run.
\<close>

theorem no_pending_no_further_round:
  assumes "\<forall>a \<in> set agents. \<exists>cs.
             readComments env (files (runRound env agents s)) (workingFile a) = Inr cs
             \<and> (\<forall>c \<in> set cs. status c \<noteq> Pending)"
  shows "startCoordinationRound env agents s = (runRound env agents s, Inr True)
         \<and> roundsStarted (trace (fst (startCoordinationRound env agents s)))
             = roundsStarted (trace s) + 1"
proof -
  from checkPendingQuestions_none[OF assms]
  have "hasPendingQuestions env agents (runRound env agents s) = Inr False"
    by (simp add: hasPendingQuestions_def)
  then have "startCoordinationRound env agents s = (runRound env agents s, Inr True)"
    by (subst startCoordinationRound.simps) (simp add: Let_def)
  then show ?thesis by (simp add: runRound_counts)
qed

theorem no_pending_no_further_round_witness:
  "files (runRound storeEnv bothWaysAgents (fresh convergeStore)) ''output/A-analysis.md''
     = Some [(newComment ''c1'' ''B'' 1)\<lparr> status := Resolved, response := Some ''no'' \<rparr>]
   \<and> files (runRound storeEnv bothWaysAgents (fresh convergeStore)) ''output/B-analysis.md''
     = Some []
   \<and> snd (startCoordinationRound storeEnv bothWaysAgents (fresh convergeStore)) = Inr True
   \<and> trace (fst (startCoordinationRound storeEnv bothWaysAgents (fresh convergeStore)))
     = [RoundStarted 1, PairAttempt ''A-B'', AnswerRequested ''B'' ''c1'']
   \<and> roundsStarted (trace (fst (startCoordinationRound storeEnv bothWaysAgents (fresh convergeStore))))
     = 1"
proof -
  have f: "files (runRound storeEnv bothWaysAgents (fresh convergeStore)) ''output/A-analysis.md''
     = Some [(newComment ''c1'' ''B'' 1)\<lparr> status := Resolved, response := Some ''no'' \<rparr>]"
    "files (runRound storeEnv bothWaysAgents (fresh convergeStore)) ''output/B-analysis.md''
     = Some []"
    "trace (runRound storeEnv bothWaysAgents (fresh convergeStore))
     = [RoundStarted 1, PairAttempt ''A-B'', AnswerRequested ''B'' ''c1'']"
    by (simp_all add: bothWaysAgents_def convergeStore_def eval_defs)
  have h: "\<forall>a \<in> set bothWaysAgents. \<exists>cs.
             readComments storeEnv (files (runRound storeEnv bothWaysAgents (fresh convergeStore)))
               (workingFile a) = Inr cs
             \<and> (\<forall>c \<in> set cs. status c \<noteq> Pending)"
    using f by (simp add: bothWaysAgents_def agentIn_def storeEnv_def readLedger_def
        joinSegments_def newComment_def)
  have "trace (fresh convergeStore) = []" by (simp add: fresh_def begin_run_def)
  with no_pending_no_further_round[OF h] f show ?thesis
    by (simp add: roundsStarted_def)
qed

text \<open>
  C7 (as found in the code): when \<open>startCoordinationRound\<close> returns, it returns
  \<open>true\<close>; the counts per pair stay in \<open>roundLimits\<close>.
\<close>

theorem returns_true:
  assumes "snd (startCoordinationRound env agents s) = Inr b"
  shows "b = True"
  using assms
proof (induction env agents s rule: startCoordinationRound.induct)
  case (1 env agents s)
  let ?s' = "runRound env agents s"
  show ?case
  proof (cases "currentRound ?s' < maxRounds ?s' \<and> hasPendingQuestions env agents ?s' = Inr True")
    case True
    then have "startCoordinationRound env agents s
        = startCoordinationRound env agents (?s'\<lparr> currentRound := currentRound ?s' + 1 \<rparr>)"
      by (subst startCoordinationRound.simps) (simp add: Let_def)
    with "1.prems" "1.IH"[of ?s' True] True show ?thesis by simp
  next
    case False
    with "1.prems" show ?thesis
      by (subst (asm) startCoordinationRound.simps) (auto simp: Let_def split: sum.splits if_splits)
  qed
qed

theorem returns_true_witness:
  "snd (startCoordinationRound storeEnv bothWaysAgents (fresh convergeStore)) = Inr True"
proof -
  have e: "snd (startCoordinationRound storeEnv bothWaysAgents (fresh convergeStore)) = Inr True"
    by (simp add: startCoordinationRound.simps bothWaysAgents_def convergeStore_def eval_defs)
  from returns_true[OF e] e show ?thesis by simp
qed

text \<open>
  C7 as the spec states it fails: two runs that end with different counts for the
  pair A-B (1 and 4) and different numbers of unresolved Comments (1 and 0) return the
  same value.
\<close>

theorem return_value_carries_no_summary:
  "snd (startCoordinationRound storeEnv staleAgents (fresh staleStore)) = Inr True
   \<and> snd (startCoordinationRound storeEnv bothWaysAgents (fresh bothWaysStore)) = Inr True
   \<and> roundLimits (fst (startCoordinationRound storeEnv staleAgents (fresh staleStore))) ''A-B''
       = Some 1
   \<and> roundLimits (fst (startCoordinationRound storeEnv bothWaysAgents (fresh bothWaysStore))) ''A-B''
       = Some 4
   \<and> checkPendingQuestions storeEnv staleAgents
        (fst (startCoordinationRound storeEnv staleAgents (fresh staleStore)))
       = Inr [newComment ''c1'' ''B'' 1]
   \<and> checkPendingQuestions storeEnv bothWaysAgents
        (fst (startCoordinationRound storeEnv bothWaysAgents (fresh bothWaysStore)))
       = Inr []"
  by (simp add: startCoordinationRound.simps staleAgents_def staleStore_def bothWaysAgents_def
      bothWaysStore_def eval_defs)

section \<open>Where an answer is written\<close>



end
